theory Spec2Isabelle
  imports Complex_Main "HOL-Library.Sublist"
begin

section \<open>Clockr: the timer engine and the reports of \<open>src/main.js\<close>\<close>

text \<open>
  The program is one JavaScript module. Its numbers are integers here (milliseconds since
  the epoch, durations in milliseconds, workspace ids); the one division whose result
  need not be an integer, the average of the records view, is a rational. Every value
  the program reads from outside (the clock, the text of an input box, the id the
  database gives to a new row) is an argument of the function that reads it, one
  argument per read.
\<close>

subsection \<open>Numbers and strings of the runtime\<close>

text \<open>\<open>Number.prototype.toString\<close> on an integer: decimal digits, a minus sign first.\<close>

definition digit_char :: "nat \<Rightarrow> char" where
  "digit_char d = ''0123456789'' ! (d mod 10)"

function nat_toString :: "nat \<Rightarrow> string" where
  "nat_toString n =
     (if n < 10 then [digit_char n] else nat_toString (n div 10) @ [digit_char (n mod 10)])"
  by pat_completeness auto
termination
  by (relation "measure (\<lambda>n. n)") auto

declare nat_toString.simps [simp del]

definition toString :: "int \<Rightarrow> string" where
  "toString n = (if n < 0 then CHR ''-'' # nat_toString (nat (- n)) else nat_toString (nat n))"

text \<open>\<open>s.padStart(k, "0")\<close>.\<close>

definition padStart :: "nat \<Rightarrow> string \<Rightarrow> string" where
  "padStart k s = replicate (k - length s) CHR ''0'' @ s"

text \<open>
  The remainder operator \<open>%\<close> truncates towards zero: the result has the sign of the
  dividend.
\<close>

definition js_rem :: "int \<Rightarrow> int \<Rightarrow> int" where
  "js_rem a b = (if a < 0 then - ((- a) mod \<bar>b\<bar>) else a mod \<bar>b\<bar>)"

text \<open>
  A character of a string is one of its code units, as far as they are below 256.
  \<open>String.prototype.trim\<close> removes the white space and the line terminators at both
  ends; those below 256 are the tab, the line feed, the vertical tab, the form feed, the
  carriage return, the space and the no-break space.
\<close>

definition isSpace :: "char \<Rightarrow> bool" where
  "isSpace c = (c \<in> set [CHR 0x09, CHR 0x0A, CHR 0x0B, CHR 0x0C, CHR 0x0D, CHR 0x20, CHR 0xA0])"

definition trim :: "string \<Rightarrow> string" where
  "trim s = rev (dropWhile isSpace (rev (dropWhile isSpace s)))"

text \<open>\<open>a.join(sep)\<close> on an array of strings.\<close>

fun join :: "string \<Rightarrow> string list \<Rightarrow> string" where
  "join sep [] = []"
| "join sep [x] = x"
| "join sep (x # y # ys) = x @ sep @ join sep (y # ys)"

subsection \<open>Dates of the runtime\<close>

text \<open>
  A \<open>Date\<close> is its time value, an integer number of milliseconds since 1970-01-01 UTC.
  The functions below are those of the language standard that the program reaches
  through \<open>new Date\<close>, \<open>getFullYear\<close>, \<open>setDate\<close>, \<open>toISOString\<close> and the others; the
  calendar is the proleptic Gregorian one, months are numbered from 0 as in the
  runtime, and the range check of the standard (time values beyond 8.64e15) is left out.
  The ISO strings the program keeps in its entries stand for their time values: the
  program only ever writes them with \<open>toISOString\<close> and reads them with \<open>new Date\<close>.
\<close>

definition msPerDay :: int where
  "msPerDay = 86400000"

definition Day :: "int \<Rightarrow> int" where
  "Day t = t div msPerDay"

definition TimeWithinDay :: "int \<Rightarrow> int" where
  "TimeWithinDay t = t mod msPerDay"

text \<open>
  Year, month (1 to 12) and day of the month of a day number counted from 1970-01-01.
  The day number is split into its era of 400 years and the day of that era (0 to
  146096); the years of an era, and the days and months of a year, are counted from the
  first of March.
\<close>

definition yearOfEra :: "int \<Rightarrow> int" where
  "yearOfEra doe = (doe - doe div 1460 + doe div 36524 - doe div 146096) div 365"

definition dayOfYear :: "int \<Rightarrow> int \<Rightarrow> int" where
  "dayOfYear doe yoe = doe - (365 * yoe + yoe div 4 - yoe div 100)"

definition monthOfYear :: "int \<Rightarrow> int" where
  "monthOfYear doy = (5 * doy + 2) div 153"

definition civil :: "int \<Rightarrow> int \<Rightarrow> int \<Rightarrow> int \<times> int \<times> int" where
  "civil y doy mp =
     (if mp < 10 then y else y + 1, if mp < 10 then mp + 3 else mp - 9,
      doy - (153 * mp + 2) div 5 + 1)"

definition civil_of_era :: "int \<Rightarrow> int \<Rightarrow> int \<times> int \<times> int" where
  "civil_of_era era doe =
     civil (yearOfEra doe + era * 400) (dayOfYear doe (yearOfEra doe))
       (monthOfYear (dayOfYear doe (yearOfEra doe)))"

definition civil_from_days :: "int \<Rightarrow> int \<times> int \<times> int" where
  "civil_from_days z = civil_of_era ((z + 719468) div 146097) ((z + 719468) mod 146097)"

text \<open>The day number of the first day of a month (1 to 12) of a year.\<close>

definition days_from_civil :: "int \<Rightarrow> int \<Rightarrow> int" where
  "days_from_civil y m =
     ((if m \<le> 2 then y - 1 else y) div 400) * 146097 +
     ((if m \<le> 2 then y - 1 else y) mod 400) * 365 +
     ((if m \<le> 2 then y - 1 else y) mod 400) div 4 -
     ((if m \<le> 2 then y - 1 else y) mod 400) div 100 +
     (153 * (if m > 2 then m - 3 else m + 9) + 2) div 5 - 719468"

definition YearFromTime :: "int \<Rightarrow> int" where
  "YearFromTime t = fst (civil_from_days (Day t))"

definition MonthFromTime :: "int \<Rightarrow> int" where
  "MonthFromTime t = fst (snd (civil_from_days (Day t))) - 1"

definition DateFromTime :: "int \<Rightarrow> int" where
  "DateFromTime t = snd (snd (civil_from_days (Day t)))"

definition WeekDay :: "int \<Rightarrow> int" where
  "WeekDay t = (Day t + 4) mod 7"

definition HourFromTime :: "int \<Rightarrow> int" where
  "HourFromTime t = (t div 3600000) mod 24"

definition MinFromTime :: "int \<Rightarrow> int" where
  "MinFromTime t = (t div 60000) mod 60"

definition SecFromTime :: "int \<Rightarrow> int" where
  "SecFromTime t = (t div 1000) mod 60"

text \<open>
  \<open>MakeDay\<close> takes any month and day numbers: a month outside 0 to 11 moves the year,
  a day outside the month runs into the neighbouring months.
\<close>

definition MakeDay :: "int \<Rightarrow> int \<Rightarrow> int \<Rightarrow> int" where
  "MakeDay year month date = days_from_civil (year + month div 12) (month mod 12 + 1) + date - 1"

definition MakeDate :: "int \<Rightarrow> int \<Rightarrow> int" where
  "MakeDate day time = day * msPerDay + time"

text \<open>
  The local time zone of the process is a parameter: \<open>zone isUTC t\<close> is the offset of
  local time from UTC in milliseconds, at the UTC time value \<open>t\<close> when \<open>isUTC\<close> holds and
  at the local time value \<open>t\<close> otherwise (\<open>LocalTZA\<close> of the standard).
\<close>

type_synonym zone = "bool \<Rightarrow> int \<Rightarrow> int"

definition LocalTime :: "zone \<Rightarrow> int \<Rightarrow> int" where
  "LocalTime zone t = t + zone True t"

definition UTC :: "zone \<Rightarrow> int \<Rightarrow> int" where
  "UTC zone t = t - zone False t"

text \<open>\<open>new Date(year, month, date)\<close>: local midnight of that day.\<close>

definition newDate :: "zone \<Rightarrow> int \<Rightarrow> int \<Rightarrow> int \<Rightarrow> int" where
  "newDate zone year month date = UTC zone (MakeDate (MakeDay year month date) 0)"

definition getFullYear :: "zone \<Rightarrow> int \<Rightarrow> int" where
  "getFullYear zone t = YearFromTime (LocalTime zone t)"

definition getMonth :: "zone \<Rightarrow> int \<Rightarrow> int" where
  "getMonth zone t = MonthFromTime (LocalTime zone t)"

definition getDate :: "zone \<Rightarrow> int \<Rightarrow> int" where
  "getDate zone t = DateFromTime (LocalTime zone t)"

definition setDate :: "zone \<Rightarrow> int \<Rightarrow> int \<Rightarrow> int" where
  "setDate zone t date =
     (let l = LocalTime zone t
      in UTC zone (MakeDate (MakeDay (YearFromTime l) (MonthFromTime l) date) (TimeWithinDay l)))"

definition setMonth :: "zone \<Rightarrow> int \<Rightarrow> int \<Rightarrow> int" where
  "setMonth zone t month =
     (let l = LocalTime zone t
      in UTC zone (MakeDate (MakeDay (YearFromTime l) month (DateFromTime l)) (TimeWithinDay l)))"

text \<open>
  \<open>toDateString\<close> prints the local week day, month, day and year (\<open>Thu Jan 01 1970\<close>);
  the four numbers stand for the string, which they determine and which determines them.
\<close>

definition toDateString :: "zone \<Rightarrow> int \<Rightarrow> int \<times> int \<times> int \<times> int" where
  "toDateString zone t =
     (let l = LocalTime zone t in (WeekDay l, MonthFromTime l, DateFromTime l, YearFromTime l))"

text \<open>
  The date part of \<open>toISOString\<close>, which is in UTC: the year has four digits from 0 to
  9999 and a sign and six digits otherwise.
\<close>

definition isoYear :: "int \<Rightarrow> string" where
  "isoYear y =
     (if 0 \<le> y \<and> y \<le> 9999 then padStart 4 (toString y)
      else (if y < 0 then ''-'' else ''+'') @ padStart 6 (toString \<bar>y\<bar>))"

definition isoDate :: "int \<Rightarrow> string" where
  "isoDate t =
     isoYear (YearFromTime t) @ ''-'' @ padStart 2 (toString (MonthFromTime t + 1)) @ ''-'' @
     padStart 2 (toString (DateFromTime t))"

text \<open>The first word of \<open>toTimeString\<close>: the local time of day, \<open>HH:MM:SS\<close>.\<close>

definition timeOfDay :: "zone \<Rightarrow> int \<Rightarrow> string" where
  "timeOfDay zone t =
     (let l = LocalTime zone t
      in padStart 2 (toString (HourFromTime l)) @ '':'' @ padStart 2 (toString (MinFromTime l)) @
         '':'' @ padStart 2 (toString (SecFromTime l)))"

subsection \<open>Formatting\<close>

text \<open>\<open>formatTime(ms)\<close>, lines 173 to 182.\<close>

definition formatTime :: "int \<Rightarrow> string" where
  "formatTime ms =
     (let totalSeconds = ms div 1000;
          hours = totalSeconds div 3600;
          minutes = js_rem totalSeconds 3600 div 60;
          seconds = js_rem totalSeconds 60
      in join '':'' (map (\<lambda>n. padStart 2 (toString n)) [hours, minutes, seconds]))"

text \<open>\<open>formatDateCSV(date)\<close>, lines 196 to 199, and \<open>formatTimeCSV(date)\<close>, lines 202 to 205.\<close>

definition formatDateCSV :: "int \<Rightarrow> string" where
  "formatDateCSV date = isoDate date"

definition formatTimeCSV :: "zone \<Rightarrow> int \<Rightarrow> string" where
  "formatTimeCSV zone date = timeOfDay zone date"

subsection \<open>The state\<close>

text \<open>
  A timer object, \<open>{ startTime, elapsed }\<close>: \<open>startTime\<close> is \<open>null\<close> or a reading of
  \<open>Date.now()\<close>. The program tests it by truth value (\<open>if (timer.startTime)\<close>), and the
  number 0 is false as \<open>null\<close> is: a timer runs when its \<open>startTime\<close> is a number other
  than 0.
\<close>

record timer =
  startTime :: "int option"
  elapsed :: int

text \<open>
  An entry of \<open>state.entries[i]\<close>: \<open>{ id, startTime, endTime, duration, description }\<close>,
  its fields prefixed with \<open>e_\<close> here. The id is missing until the database has answered
  the insert.
\<close>

record entry =
  e_id :: "int option"
  e_startTime :: int
  e_endTime :: int
  e_duration :: int
  e_description :: string

text \<open>
  A row of the table \<open>entries\<close> of the database, lines 45 to 55 (the columns \<open>id\<close>,
  \<open>duration\<close> and \<open>description\<close> are prefixed with \<open>row_\<close> here).
\<close>

record row =
  row_id :: int
  workspace_id :: int
  start_time :: int
  end_time :: int
  row_duration :: int
  row_description :: string

text \<open>
  A call of an \<open>async\<close> function that has reached an \<open>await\<close> on the database and waits
  for the answer, with the local variables the rest of the call uses:
  \<^item> \<open>stopTimer\<close> at line 366, with \<open>workspace\<close>, the timer object \<open>timer\<close> (a reference),
    the \<open>entry\<close> it has built, and the new count when \<open>changeWorkspaceCount\<close> awaits the
    call (line 644);
  \<^item> \<open>clearAll\<close> at line 625;
  \<^item> \<open>changeWorkspaceCount\<close> in the turn \<open>i\<close> of its loop, lines 651 to 671;
  \<^item> \<open>deleteEntry\<close> at line 513 and \<open>deleteRecordFromTable\<close> at line 891, with the
    workspace and the id of the entry;
  \<^item> \<open>saveEdit\<close> at line 487 and at line 859, with the id of the entry, the new
    description, and whether the call is the one of the records table, which has still
    to write the description into \<open>state.entries\<close>.
\<close>

datatype task =
    StopTimerK int nat entry "int option"
  | ClearAllK
  | ChangeWorkspaceCountK int int
  | DeleteEntryK int int
  | UpdateEntryK int string bool

text \<open>
  The object \<open>state\<close> of lines 16 to 22, and around it what the claims need of the rest
  of the process: the timer objects live in a store (\<open>state.timers[i]\<close> holds a reference,
  as a suspended \<open>stopTimer\<close> does), \<open>db\<close> is the table \<open>entries\<close>, and \<open>pending\<close> are the
  suspended calls.
\<close>

record state =
  workspaceCount :: int
  activeWorkspace :: "int option"
  timers :: "int \<Rightarrow> nat option"
  entries :: "int \<Rightarrow> entry list option"
  workspaceNames :: "int \<Rightarrow> string option"
  store :: "nat \<Rightarrow> timer"
  nextRef :: nat
  db :: "row list"
  pending :: "task list"

text \<open>\<open>state.workspaceNames[i] || `Workspace ${i}`\<close>: the empty string is false too.\<close>

definition nameOr :: "state \<Rightarrow> int \<Rightarrow> string" where
  "nameOr s i =
     (case workspaceNames s i of
        None \<Rightarrow> ''Workspace '' @ toString i
      | Some n \<Rightarrow> if n = [] then ''Workspace '' @ toString i else n)"

text \<open>
  \<open>state.entries[i] || []\<close>, and whether the lists of the workspaces 1 to
  \<open>workspaceCount\<close> hold no entry at all.
\<close>

definition entriesOf :: "state \<Rightarrow> int \<Rightarrow> entry list" where
  "entriesOf s i = (case entries s i of None \<Rightarrow> [] | Some es \<Rightarrow> es)"

definition noEntries :: "state \<Rightarrow> bool" where
  "noEntries s = list_all (\<lambda>i. entriesOf s i = []) [1..workspaceCount s]"

text \<open>No timer object has banked time: the field \<open>elapsed\<close> of each is 0.\<close>

definition banked0 :: "state \<Rightarrow> bool" where
  "banked0 s = (\<forall>ref. elapsed (store s ref) = 0)"

subsection \<open>Time worked today\<close>

text \<open>
  \<open>updateTotalTime\<close>, lines 222 to 244. \<open>today\<close> is the reading of the clock of line 223,
  \<open>now\<close> the one of line 239. \<open>totalTime\<close> is the number \<open>total\<close> of line 243; the function
  shows \<open>formatTime(total)\<close>.
\<close>

definition addEntriesOfToday :: "zone \<Rightarrow> int \<Rightarrow> entry list \<Rightarrow> int \<Rightarrow> int" where
  "addEntriesOfToday zone today es total0 =
     fold (\<lambda>entry total.
        if toDateString zone (e_startTime entry) = toDateString zone today
        then total + e_duration entry else total) es total0"

definition addCurrentTimer :: "int \<Rightarrow> state \<Rightarrow> int \<Rightarrow> int \<Rightarrow> int" where
  "addCurrentTimer now s i total0 =
     (if activeWorkspace s = Some i then
        (case timers s i of
           None \<Rightarrow> total0
         | Some ref \<Rightarrow>
             total0 + (elapsed (store s ref) +
               (case startTime (store s ref) of
                  None \<Rightarrow> 0
                | Some t \<Rightarrow> if t \<noteq> 0 then now - t else 0)))
      else total0)"

definition totalTime :: "zone \<Rightarrow> int \<Rightarrow> int \<Rightarrow> state \<Rightarrow> int" where
  "totalTime zone today now s =
     fold (\<lambda>i total.
        addCurrentTimer now s i
          (case entries s i of None \<Rightarrow> total | Some es \<Rightarrow> addEntriesOfToday zone today es total))
       [1..workspaceCount s] 0"

definition updateTotalTime :: "zone \<Rightarrow> int \<Rightarrow> int \<Rightarrow> state \<Rightarrow> string" where
  "updateTotalTime zone today now s = formatTime (totalTime zone today now s)"

text \<open>\<open>updateTimerDisplay\<close>, lines 208 to 219: the elapsed time it shows for a workspace.\<close>

definition timerElapsed :: "int \<Rightarrow> timer \<Rightarrow> int" where
  "timerElapsed now timer =
     (case startTime timer of
        None \<Rightarrow> elapsed timer
      | Some t \<Rightarrow> if t \<noteq> 0 then elapsed timer + (now - t) else elapsed timer)"

subsection \<open>Export to CSV\<close>

text \<open>
  \<open>exportToCSV\<close>, lines 544 to 599. A row of \<open>allEntries\<close> has its fields prefixed with
  \<open>x_\<close>. The function ends in one of two effects: the alert of line 571, or the download
  of a file (name and text) of lines 590 to 598.
\<close>

record exportRow =
  x_workspace :: string
  x_date :: string
  x_startTime :: string
  x_endTime :: string
  x_duration :: string
  x_durationSeconds :: int
  x_description :: string

datatype export = Alert string | Download string string

definition dquote :: char where
  "dquote = CHR 0x22"

definition exportRowOf :: "zone \<Rightarrow> state \<Rightarrow> int \<Rightarrow> entry \<Rightarrow> exportRow" where
  "exportRowOf zone s i entry =
     \<lparr> x_workspace = nameOr s i,
       x_date = formatDateCSV (e_startTime entry),
       x_startTime = formatTimeCSV zone (e_startTime entry),
       x_endTime = formatTimeCSV zone (e_endTime entry),
       x_duration = formatTime (e_duration entry),
       x_durationSeconds = e_duration entry div 1000,
       x_description = e_description entry \<rparr>"

definition allEntries :: "zone \<Rightarrow> state \<Rightarrow> exportRow list" where
  "allEntries zone s =
     fold (\<lambda>i acc.
        case entries s i of None \<Rightarrow> acc | Some es \<Rightarrow> acc @ map (exportRowOf zone s i) es)
       [1..workspaceCount s] []"

text \<open>
  \<open>a.localeCompare(b)\<close> is taken as the comparison of the strings character by
  character, which is what the collation does on two dates or two times of day of the
  same shape; \<open>sortWith\<close> is the stable sort that \<open>Array.prototype.sort\<close> is, for a
  comparison function that returns a negative number, zero or a positive number.
\<close>

definition localeCompare :: "string \<Rightarrow> string \<Rightarrow> int" where
  "localeCompare a b =
     (if a = b then 0 else if ord.lexordp (\<lambda>c d. of_char c < (of_char d :: nat)) a b then - 1 else 1)"

fun insertWith :: "('a \<Rightarrow> 'a \<Rightarrow> int) \<Rightarrow> 'a \<Rightarrow> 'a list \<Rightarrow> 'a list" where
  "insertWith cmp x [] = [x]"
| "insertWith cmp x (y # ys) = (if cmp x y \<le> 0 then x # y # ys else y # insertWith cmp x ys)"

definition sortWith :: "('a \<Rightarrow> 'a \<Rightarrow> int) \<Rightarrow> 'a list \<Rightarrow> 'a list" where
  "sortWith cmp xs = foldr (insertWith cmp) xs []"

definition compareRows :: "exportRow \<Rightarrow> exportRow \<Rightarrow> int" where
  "compareRows a b =
     (let dateCompare = localeCompare (x_date b) (x_date a)
      in if dateCompare \<noteq> 0 then dateCompare else localeCompare (x_startTime b) (x_startTime a))"

definition doubleQuotes :: "string \<Rightarrow> string" where
  "doubleQuotes s = concat (map (\<lambda>c. if c = dquote then [dquote, dquote] else [c]) s)"

definition csvLine :: "exportRow \<Rightarrow> string" where
  "csvLine e =
     join '','' [
       [dquote] @ x_workspace e @ [dquote],
       x_date e,
       x_startTime e,
       x_endTime e,
       x_duration e,
       toString (x_durationSeconds e),
       [dquote] @ doubleQuotes (x_description e) @ [dquote]]"

definition headers :: "string list" where
  "headers = [''Workspace'', ''Date'', ''Start Time'', ''End Time'', ''Duration'',
     ''Duration (seconds)'', ''Description'']"

definition exportToCSV :: "zone \<Rightarrow> int \<Rightarrow> state \<Rightarrow> export" where
  "exportToCSV zone now s =
     (let rows = sortWith compareRows (allEntries zone s)
      in if length rows = 0 then Alert ''No entries to export''
         else Download (''clockr-export-'' @ formatDateCSV now @ ''.csv'')
                (join [CHR 0x0A] (join '','' headers # map csvLine rows)))"

subsection \<open>The records view\<close>

text \<open>
  A record of \<open>loadAllRecords\<close>, lines 723 to 731, its fields prefixed with \<open>r_\<close>, and the
  filter \<open>recordsFilter\<close> of line 680: its \<open>workspace\<close> is \<open>'all'\<close> or the number of a
  workspace in decimal, which \<open>parseInt\<close> reads back; its \<open>date\<close> is one of \<open>'all'\<close>,
  \<open>'today'\<close>, \<open>'week'\<close>, \<open>'month'\<close>.
\<close>

record records =
  r_id :: int
  r_workspaceId :: int
  r_workspaceName :: string
  r_startTime :: int
  r_endTime :: int
  r_duration :: int
  r_description :: string

datatype workspaceFilter = AllWorkspaces | OneWorkspace int

datatype dateFilter = AllDates | Today | Week | Month

record recordsFilter =
  f_workspace :: workspaceFilter
  f_date :: dateFilter

text \<open>\<open>filterRecords\<close>, lines 735 to 761; \<open>now\<close> is the reading of the clock of line 745.\<close>

definition filterRecords :: "zone \<Rightarrow> int \<Rightarrow> recordsFilter \<Rightarrow> records list \<Rightarrow> records list" where
  "filterRecords zone now recordsFilter records =
     (let filtered =
            (case f_workspace recordsFilter of
               AllWorkspaces \<Rightarrow> records
             | OneWorkspace wsId \<Rightarrow> filter (\<lambda>r. r_workspaceId r = wsId) records);
          today = newDate zone (getFullYear zone now) (getMonth zone now) (getDate zone now)
      in case f_date recordsFilter of
           Today \<Rightarrow> filter (\<lambda>r. r_startTime r \<ge> today) filtered
         | Week \<Rightarrow>
             (let weekAgo = setDate zone today (getDate zone today - 7)
              in filter (\<lambda>r. r_startTime r \<ge> weekAgo) filtered)
         | Month \<Rightarrow>
             (let monthAgo = setMonth zone today (getMonth zone today - 1)
              in filter (\<lambda>r. r_startTime r \<ge> monthAgo) filtered)
         | AllDates \<Rightarrow> filtered)"

text \<open>
  The summary of \<open>loadRecordsView\<close>, lines 779 to 781. The division is the one of the
  rationals; the runtime rounds its result to the nearest floating-point number.
\<close>

record summary =
  totalEntries :: nat
  totalDuration :: int
  avgDuration :: rat

definition summarize :: "records list \<Rightarrow> summary" where
  "summarize filtered =
     (let totalEntries = length filtered;
          totalDuration = foldl (\<lambda>sum r. sum + r_duration r) 0 filtered;
          avgDuration = (if totalEntries > 0 then of_int totalDuration / of_nat totalEntries else 0)
      in \<lparr> totalEntries = totalEntries, totalDuration = totalDuration, avgDuration = avgDuration \<rparr>)"

subsection \<open>The database\<close>

text \<open>
  The statements on the table \<open>entries\<close>. \<open>addEntry\<close>, lines 146 to 152, inserts a
  row; the database chooses its id, \<open>lastInsertId\<close>, which is an argument here. The
  \<open>SELECT\<close> of lines 109 to 112 and 659 to 662 with the mapping that follows it reads the
  entries of a workspace back, latest start first (entries of the same start in the
  order of the table). A statement takes effect on the table when the database answers
  it.
\<close>

definition addEntry :: "int \<Rightarrow> entry \<Rightarrow> int \<Rightarrow> row list \<Rightarrow> row list" where
  "addEntry workspaceId entry lastInsertId rows =
     rows @ [\<lparr> row_id = lastInsertId, workspace_id = workspaceId,
               start_time = e_startTime entry, end_time = e_endTime entry,
               row_duration = e_duration entry, row_description = e_description entry \<rparr>]"

definition entryOfRow :: "row \<Rightarrow> entry" where
  "entryOfRow e =
     \<lparr> e_id = Some (row_id e), e_startTime = start_time e, e_endTime = end_time e,
       e_duration = row_duration e,
       e_description = (if row_description e = [] then ''No description'' else row_description e) \<rparr>"

definition selectEntries :: "row list \<Rightarrow> int \<Rightarrow> entry list" where
  "selectEntries rows i =
     map entryOfRow (sort_key (\<lambda>e. - start_time e) (filter (\<lambda>e. workspace_id e = i) rows))"

text \<open>
  \<open>updateEntry\<close>, lines 155 to 160, and \<open>deleteEntryFromDb\<close>, lines 163 to 165.
  \<open>clearAllEntries\<close>, lines 168 to 170, leaves the empty table.
\<close>

definition updateEntry :: "int \<Rightarrow> string \<Rightarrow> row list \<Rightarrow> row list" where
  "updateEntry entryId description rows =
     map (\<lambda>e. if row_id e = entryId then e\<lparr> row_description := description \<rparr> else e) rows"

definition deleteEntryFromDb :: "int \<Rightarrow> row list \<Rightarrow> row list" where
  "deleteEntryFromDb entryId rows = filter (\<lambda>e. row_id e \<noteq> entryId) rows"

subsection \<open>The timer engine\<close>

definition initialState :: state where
  "initialState =
     \<lparr> workspaceCount = 1, activeWorkspace = None, timers = (\<lambda>i. None), entries = (\<lambda>i. None),
       workspaceNames = (\<lambda>i. None), store = (\<lambda>ref. \<lparr> startTime = None, elapsed = 0 \<rparr>),
       nextRef = 0, db = [], pending = [] \<rparr>"

text \<open>\<open>state.timers[i] = { startTime: null, elapsed: 0 }\<close>: a new object.\<close>

definition newTimer :: "int \<Rightarrow> state \<Rightarrow> state" where
  "newTimer i s =
     s\<lparr> timers := (timers s)(i \<mapsto> nextRef s),
        store := (store s)(nextRef s := \<lparr> startTime = None, elapsed = 0 \<rparr>),
        nextRef := Suc (nextRef s) \<rparr>"

text \<open>\<open>initWorkspaceState\<close>, lines 68 to 80.\<close>

definition initWorkspace :: "int \<Rightarrow> state \<Rightarrow> state" where
  "initWorkspace i s =
     (let s1 = (case timers s i of None \<Rightarrow> newTimer i s | Some ref \<Rightarrow> s);
          s2 = (case entries s1 i of None \<Rightarrow> s1\<lparr> entries := (entries s1)(i \<mapsto> []) \<rparr> | Some es \<Rightarrow> s1)
      in s2\<lparr> workspaceNames := (workspaceNames s2)(i \<mapsto> nameOr s2 i) \<rparr>)"

definition initWorkspaceState :: "int \<Rightarrow> state \<Rightarrow> state" where
  "initWorkspaceState count s = fold initWorkspace [1..count] s"

text \<open>
  \<open>loadState\<close>, lines 83 to 127, on the state of line 16: \<open>count\<close> is the workspace count
  it reads from the settings (1 when there is none), \<open>names\<close> the table of workspace
  names, \<open>rows\<close> the table of entries. It runs before any listener is attached.
\<close>

definition loadState :: "int \<Rightarrow> (int \<Rightarrow> string option) \<Rightarrow> row list \<Rightarrow> state" where
  "loadState count names rows =
     fold (\<lambda>i s. s\<lparr> entries := (entries s)(i \<mapsto> selectEntries rows i) \<rparr>) [1..count]
       (initWorkspaceState count
          (initialState\<lparr> workspaceCount := count, workspaceNames := names, db := rows \<rparr>))"

text \<open>
  \<open>stopTimer\<close>, lines 349 to 408, is an \<open>async\<close> function: a call runs up to its first
  \<open>await\<close> and returns a promise. \<open>stopTimerRest\<close> is the part from line 381 on, which
  resets the timer object the call has read at line 350.
\<close>

datatype promise = Fulfilled | Pending | Rejected

definition stopTimerRest :: "int \<Rightarrow> nat \<Rightarrow> state \<Rightarrow> state" where
  "stopTimerRest workspace timer s =
     (let s1 = s\<lparr> store := (store s)(timer := (store s timer)\<lparr> startTime := None, elapsed := 0 \<rparr>) \<rparr>
      in if activeWorkspace s1 = Some workspace then s1\<lparr> activeWorkspace := None \<rparr> else s1)"

text \<open>
  The call itself: \<open>now1\<close> is the reading of the clock of line 353, \<open>now2\<close> the one of line
  360, \<open>descInput\<close> the text of the description box of the workspace when there is one,
  \<open>awaitedBy\<close> the new count when \<open>changeWorkspaceCount\<close> awaits the call. Without a timer
  object for the workspace, line 352 throws and the promise is rejected. With a running
  timer the call builds the entry, sends the insert and is suspended at line 366.
\<close>

definition stopTimer ::
  "int \<Rightarrow> int \<Rightarrow> int \<Rightarrow> string option \<Rightarrow> int option \<Rightarrow> state \<Rightarrow> promise \<times> state" where
  "stopTimer workspace now1 now2 descInput awaitedBy s =
     (case timers s workspace of
        None \<Rightarrow> (Rejected, s)
      | Some timer \<Rightarrow>
          (case startTime (store s timer) of
             None \<Rightarrow> (Fulfilled, stopTimerRest workspace timer s)
           | Some t \<Rightarrow>
               if t \<noteq> 0 then
                 (let duration = elapsed (store s timer) + (now1 - t);
                      description = (case descInput of None \<Rightarrow> [] | Some v \<Rightarrow> trim v);
                      entry = \<lparr> e_id = None, e_startTime = t, e_endTime = now2,
                                e_duration = duration,
                                e_description =
                                  (if description = [] then ''No description'' else description) \<rparr>
                  in (Pending, s\<lparr> pending := pending s @ [StopTimerK workspace timer entry awaitedBy] \<rparr>))
               else (Fulfilled, stopTimerRest workspace timer s)))"

text \<open>
  The rest of a suspended call, lines 366 to 408, once the database has answered the
  insert with \<open>entryId\<close>.
\<close>

definition stopTimerResume :: "int \<Rightarrow> nat \<Rightarrow> entry \<Rightarrow> int \<Rightarrow> state \<Rightarrow> state" where
  "stopTimerResume workspace timer entry entryId s =
     (let s1 = s\<lparr> db := addEntry workspace entry entryId (db s) \<rparr>;
          entry1 = entry\<lparr> e_id := Some entryId \<rparr>;
          s2 = s1\<lparr> entries := (entries s1)(workspace \<mapsto>
                  entry1 # (case entries s1 workspace of None \<Rightarrow> [] | Some es \<Rightarrow> es)) \<rparr>
      in stopTimerRest workspace timer s2)"

text \<open>
  \<open>startTimer\<close>, lines 321 to 346. It is not \<open>async\<close>, and it does not wait for the promise
  of the \<open>stopTimer\<close> it calls at line 324. \<open>now\<close> is the reading of the clock of line 328;
  the three arguments before it are those of the \<open>stopTimer\<close> of line 324. Without a timer
  object for the workspace, line 328 throws, after line 327 has been executed.
\<close>

datatype 'a completion = Normal 'a | Throw 'a

definition startTimer ::
  "int \<Rightarrow> int \<Rightarrow> int \<Rightarrow> string option \<Rightarrow> int \<Rightarrow> state \<Rightarrow> state completion" where
  "startTimer workspace now1 now2 descInput now s =
     (let s1 = (case activeWorkspace s of
                  None \<Rightarrow> s
                | Some a \<Rightarrow>
                    if a \<noteq> workspace then snd (stopTimer a now1 now2 descInput None s) else s);
          s2 = s1\<lparr> activeWorkspace := Some workspace \<rparr>
      in case timers s2 workspace of
           None \<Rightarrow> Throw s2
         | Some timer \<Rightarrow>
             Normal (s2\<lparr> store := (store s2)(timer := (store s2 timer)\<lparr> startTime := Some now \<rparr>) \<rparr>))"

text \<open>
  \<open>clearAll\<close>, lines 602 to 638: up to the \<open>await\<close> of line 625, and from the answer of
  the database on. \<open>if (state.activeWorkspace)\<close> is false for \<open>null\<close> and for 0.
\<close>

definition clearAll :: "state \<Rightarrow> promise \<times> state" where
  "clearAll s =
     (case activeWorkspace s of
        None \<Rightarrow> (Pending, s\<lparr> pending := pending s @ [ClearAllK] \<rparr>)
      | Some a \<Rightarrow>
          if a \<noteq> 0 then
            (case timers s a of
               None \<Rightarrow> (Rejected, s)
             | Some timer \<Rightarrow>
                 (let s1 = s\<lparr> store := (store s)(timer :=
                             (store s timer)\<lparr> startTime := None, elapsed := 0 \<rparr>) \<rparr>;
                      s2 = s1\<lparr> activeWorkspace := None \<rparr>
                  in (Pending, s2\<lparr> pending := pending s2 @ [ClearAllK] \<rparr>)))
          else (Pending, s\<lparr> pending := pending s @ [ClearAllK] \<rparr>))"

definition clearAllResume :: "state \<Rightarrow> state" where
  "clearAllResume s =
     fold (\<lambda>i s. newTimer i (s\<lparr> entries := (entries s)(i \<mapsto> []) \<rparr>)) [1..workspaceCount s]
       (s\<lparr> db := [] \<rparr>)"

text \<open>
  \<open>changeWorkspaceCount\<close>, lines 641 to 676. It awaits the \<open>stopTimer\<close> of line 644.
  \<open>changeWorkspaceCountRest\<close> is lines 647 to 651, up to the first \<open>await\<close> of the loop;
  \<open>changeWorkspaceCountLoop\<close> is the turn \<open>i\<close> of the loop, taken in one step when the
  database answers. What follows the loop changes nothing in \<open>state\<close>.
\<close>

definition changeWorkspaceCountRest :: "int \<Rightarrow> state \<Rightarrow> state" where
  "changeWorkspaceCountRest newCount s =
     (let s1 = initWorkspaceState newCount (s\<lparr> workspaceCount := newCount \<rparr>)
      in if 1 \<le> newCount then s1\<lparr> pending := pending s1 @ [ChangeWorkspaceCountK newCount 1] \<rparr>
         else s1)"

definition changeWorkspaceCount ::
  "int \<Rightarrow> int \<Rightarrow> int \<Rightarrow> string option \<Rightarrow> state \<Rightarrow> state" where
  "changeWorkspaceCount newCount now1 now2 descInput s =
     (case activeWorkspace s of
        None \<Rightarrow> changeWorkspaceCountRest newCount s
      | Some a \<Rightarrow>
          if a \<noteq> 0 then
            (case stopTimer a now1 now2 descInput (Some newCount) s of
               (Fulfilled, s1) \<Rightarrow> changeWorkspaceCountRest newCount s1
             | (Pending, s1) \<Rightarrow> s1
             | (Rejected, s1) \<Rightarrow> s1)
          else changeWorkspaceCountRest newCount s)"

definition changeWorkspaceCountLoop :: "int \<Rightarrow> int \<Rightarrow> state \<Rightarrow> state" where
  "changeWorkspaceCountLoop newCount i s =
     (let s1 = (case entries s i of
                  None \<Rightarrow> s\<lparr> entries := (entries s)(i \<mapsto> selectEntries (db s) i) \<rparr>
                | Some es \<Rightarrow>
                    if length es = 0 then s\<lparr> entries := (entries s)(i \<mapsto> selectEntries (db s) i) \<rparr>
                    else s)
      in if i + 1 \<le> newCount then s1\<lparr> pending := pending s1 @ [ChangeWorkspaceCountK newCount (i + 1)] \<rparr>
         else s1)"

subsection \<open>Editing and deleting entries\<close>

text \<open>
  \<open>deleteEntry\<close>, lines 504 to 541, and \<open>deleteRecordFromTable\<close>, lines 886 to 916, on
  the click that confirms: the statement of the database is sent, and when it is
  answered the entry is filtered out of the list of the workspace.
\<close>

definition deleteEntry :: "int \<Rightarrow> int \<Rightarrow> state \<Rightarrow> state" where
  "deleteEntry workspace entryId s = s\<lparr> pending := pending s @ [DeleteEntryK workspace entryId] \<rparr>"

definition deleteEntryResume :: "int \<Rightarrow> int \<Rightarrow> state \<Rightarrow> state" where
  "deleteEntryResume workspace entryId s =
     s\<lparr> db := deleteEntryFromDb entryId (db s),
        entries := (entries s)(workspace \<mapsto>
          filter (\<lambda>e. e_id e \<noteq> Some entryId)
            (case entries s workspace of None \<Rightarrow> [] | Some es \<Rightarrow> es)) \<rparr>"

text \<open>
  \<open>entries.find(e => e.id === id)\<close> followed by \<open>entry.description = newValue\<close>: the
  list with the description of its first entry of that id replaced, if there is one.
\<close>

fun editDescription :: "int \<Rightarrow> string \<Rightarrow> entry list \<Rightarrow> entry list option" where
  "editDescription entryId newValue [] = None"
| "editDescription entryId newValue (e # es) =
     (if e_id e = Some entryId then Some (e\<lparr> e_description := newValue \<rparr> # es)
      else map_option (\<lambda>es'. e # es') (editDescription entryId newValue es))"

text \<open>
  \<open>editEntry\<close> with its \<open>saveEdit\<close>, lines 458 to 489, taken in one step; \<open>input\<close>
  is the text of the input box. The function looks the entry up by its id and returns,
  at line 461 or at line 464, when the workspace has no list or the list no such entry;
  otherwise \<open>saveEdit\<close> writes the description of that entry and sends the statement.
\<close>

definition editEntry :: "int \<Rightarrow> int \<Rightarrow> string \<Rightarrow> state \<Rightarrow> state" where
  "editEntry workspace entryId input s =
     (let newValue = (if trim input = [] then ''No description'' else trim input)
      in case entries s workspace of
           None \<Rightarrow> s
         | Some es \<Rightarrow>
             (case editDescription entryId newValue es of
                None \<Rightarrow> s
              | Some es' \<Rightarrow>
                  s\<lparr> entries := (entries s)(workspace \<mapsto> es'),
                     pending := pending s @ [UpdateEntryK entryId newValue False] \<rparr>))"

text \<open>
  \<open>saveEdit\<close> of \<open>editRecordInTable\<close>, lines 857 to 871: the statement is sent first,
  and when it is answered the loop of lines 862 to 868 writes the description into the
  first list that has an entry of that id.
\<close>

definition editRecordInTable :: "int \<Rightarrow> string \<Rightarrow> state \<Rightarrow> state" where
  "editRecordInTable entryId input s =
     (let newValue = (if trim input = [] then ''No description'' else trim input)
      in s\<lparr> pending := pending s @ [UpdateEntryK entryId newValue True] \<rparr>)"

fun editFirst :: "int \<Rightarrow> string \<Rightarrow> int list \<Rightarrow> state \<Rightarrow> state" where
  "editFirst entryId newValue [] s = s"
| "editFirst entryId newValue (i # js) s =
     (case entries s i of
        None \<Rightarrow> editFirst entryId newValue js s
      | Some es \<Rightarrow>
          (case editDescription entryId newValue es of
             None \<Rightarrow> editFirst entryId newValue js s
           | Some es' \<Rightarrow> s\<lparr> entries := (entries s)(i \<mapsto> es') \<rparr>))"

definition updateEntryResume :: "int \<Rightarrow> string \<Rightarrow> bool \<Rightarrow> state \<Rightarrow> state" where
  "updateEntryResume entryId newValue table s =
     (let s1 = s\<lparr> db := updateEntry entryId newValue (db s) \<rparr>
      in if table then editFirst entryId newValue [1..workspaceCount s1] s1 else s1)"

subsection \<open>The events of a run\<close>

text \<open>
  One event is one turn of the event loop: a listener called by the user interface, or
  the answer of the database to the \<open>k\<close>-th suspended call (with the id of the new row
  when the call is an insert), or its failure, which ends the suspended call there.
\<close>

datatype event =
    StartTimer int int int "string option" int
  | StopTimer int int int "string option"
  | ClearAll
  | ChangeWorkspaceCount int int int "string option"
  | DeleteEntry int int
  | EditEntry int int string
  | EditRecordInTable int string
  | Resolve nat int
  | Fail nat

definition after :: "'a completion \<Rightarrow> 'a" where
  "after c = (case c of Normal s \<Rightarrow> s | Throw s \<Rightarrow> s)"

definition resume :: "task \<Rightarrow> int \<Rightarrow> state \<Rightarrow> state" where
  "resume k answer s =
     (case k of
        StopTimerK workspace timer entry awaitedBy \<Rightarrow>
          (let s1 = stopTimerResume workspace timer entry answer s
           in case awaitedBy of None \<Rightarrow> s1 | Some newCount \<Rightarrow> changeWorkspaceCountRest newCount s1)
      | ClearAllK \<Rightarrow> clearAllResume s
      | ChangeWorkspaceCountK newCount i \<Rightarrow> changeWorkspaceCountLoop newCount i s
      | DeleteEntryK workspace entryId \<Rightarrow> deleteEntryResume workspace entryId s
      | UpdateEntryK entryId newValue table \<Rightarrow> updateEntryResume entryId newValue table s)"

definition dequeue :: "nat \<Rightarrow> state \<Rightarrow> state" where
  "dequeue k s = s\<lparr> pending := take k (pending s) @ drop (Suc k) (pending s) \<rparr>"

fun exec :: "event \<Rightarrow> state \<Rightarrow> state" where
  "exec (StartTimer workspace now1 now2 descInput now) s =
     after (startTimer workspace now1 now2 descInput now s)"
| "exec (StopTimer workspace now1 now2 descInput) s =
     snd (stopTimer workspace now1 now2 descInput None s)"
| "exec ClearAll s = snd (clearAll s)"
| "exec (ChangeWorkspaceCount newCount now1 now2 descInput) s =
     changeWorkspaceCount newCount now1 now2 descInput s"
| "exec (DeleteEntry workspace entryId) s = deleteEntry workspace entryId s"
| "exec (EditEntry workspace entryId input) s = editEntry workspace entryId input s"
| "exec (EditRecordInTable entryId input) s = editRecordInTable entryId input s"
| "exec (Resolve k answer) s =
     (if k < length (pending s) then resume (pending s ! k) answer (dequeue k s) else s)"
| "exec (Fail k) s = (if k < length (pending s) then dequeue k s else s)"

text \<open>The states of a run: the state after \<open>loadState\<close>, and the state after each event.\<close>

inductive reachable :: "state \<Rightarrow> bool" where
  start: "reachable (loadState count names rows)"
| step: "reachable s \<Longrightarrow> reachable (exec ev s)"

section \<open>Example inputs\<close>

text \<open>The time zone of a process that runs on UTC, and of one five hours behind it.\<close>

definition zoneUTC :: zone where
  "zoneUTC isUTC t = 0"

definition zoneWest :: zone where
  "zoneWest isUTC t = - 18000000"

text \<open>
  Two records: the first starts on 2024-01-01 at 09:00:00 UTC and lasts an hour and a
  half, the second starts on 2023-12-31 at 05:20:00 UTC.
\<close>

definition recordA :: records where
  "recordA =
     \<lparr> r_id = 1, r_workspaceId = 1, r_workspaceName = ''W1'', r_startTime = 1704099600000,
       r_endTime = 1704105000000, r_duration = 5400000, r_description = ''a'' \<rparr>"

definition recordB :: records where
  "recordB =
     \<lparr> r_id = 2, r_workspaceId = 2, r_workspaceName = ''W2'', r_startTime = 1704000000000,
       r_endTime = 1704000003000, r_duration = 3000, r_description = ''b'' \<rparr>"

definition recordC :: records where
  "recordC =
     \<lparr> r_id = 3, r_workspaceId = 1, r_workspaceName = ''W1'', r_startTime = 1000,
       r_endTime = 2000, r_duration = 1000, r_description = ''c'' \<rparr>"

definition todayFilter :: recordsFilter where
  "todayFilter = \<lparr> f_workspace = AllWorkspaces, f_date = Today \<rparr>"

text \<open>
  A run with two workspaces and an empty database: the user starts workspace 1 when the
  clock reads 1000, then starts workspace 2 when it reads 2000, and then the database
  answers the insert of the entry of workspace 1 with the id 1.
\<close>

definition exampleStart :: state where
  "exampleStart = loadState 2 (\<lambda>i. None) []"

definition exampleRunning :: state where
  "exampleRunning = exec (StartTimer 1 0 0 None 1000) exampleStart"

definition exampleSwitching :: state where
  "exampleSwitching = exec (StartTimer 2 2000 2000 None 2000) exampleRunning"

definition exampleSwitched :: state where
  "exampleSwitched = exec (Resolve 0 1) exampleSwitching"

text \<open>
  Another end of the run: the insert fails. And a third run, in which the user stops
  workspace 1 instead; the clock reads 2000 at line 353 and 2001 at line 360, and the
  database answers with the id 1.
\<close>

definition exampleFailed :: state where
  "exampleFailed = exec (Fail 0) exampleSwitching"

definition exampleStopped :: state where
  "exampleStopped = exec (Resolve 0 1) (exec (StopTimer 1 2000 2001 None) exampleRunning)"

text \<open>
  A database with one workspace, whose name has a double quote in it, and one entry of
  an hour and a half that starts on 2024-01-01 at 02:00:00 UTC, which is 21:00:00 of
  Sunday 2023-12-31 five hours to the west; its description has a double quote too.
\<close>

definition exampleNames :: "int \<Rightarrow> string option" where
  "exampleNames i = (if i = 1 then Some [CHR ''W'', dquote, CHR ''1''] else None)"

definition exampleRows :: "row list" where
  "exampleRows =
     [\<lparr> row_id = 1, workspace_id = 1, start_time = 1704074400000, end_time = 1704079800000,
         row_duration = 5400000, row_description = [CHR ''a'', dquote, CHR ''b''] \<rparr>]"

definition exampleEntry :: entry where
  "exampleEntry =
     \<lparr> e_id = Some 1, e_startTime = 1704074400000, e_endTime = 1704079800000,
       e_duration = 5400000, e_description = [CHR ''a'', dquote, CHR ''b''] \<rparr>"

definition exampleQuoted :: state where
  "exampleQuoted = loadState 1 exampleNames exampleRows"

text \<open>
  A database with two entries of one workspace: five hours to the west, the first
  starts a millisecond before the midnight that begins 2024-01-01 and lasts 10, the
  second starts at that midnight and lasts 20.
\<close>

definition midnightRows :: "row list" where
  "midnightRows =
     [\<lparr> row_id = 1, workspace_id = 1, start_time = 1704085199999, end_time = 1704085200009,
         row_duration = 10, row_description = ''late'' \<rparr>,
      \<lparr> row_id = 2, workspace_id = 1, start_time = 1704085200000, end_time = 1704085200020,
         row_duration = 20, row_description = ''early'' \<rparr>]"

definition exampleMidnight :: state where
  "exampleMidnight = loadState 1 (\<lambda>i. None) midnightRows"

text \<open>
  A database with three workspaces and one entry, of workspace 3, which starts on
  2024-01-01 at 09:00:00 UTC and lasts an hour; and the run in which the user then
  lowers the number of workspaces to 2.
\<close>

definition hiddenRows :: "row list" where
  "hiddenRows =
     [\<lparr> row_id = 1, workspace_id = 3, start_time = 1704099600000, end_time = 1704103200000,
         row_duration = 3600000, row_description = ''review'' \<rparr>]"

definition hiddenEntry :: entry where
  "hiddenEntry =
     \<lparr> e_id = Some 1, e_startTime = 1704099600000, e_endTime = 1704103200000,
       e_duration = 3600000, e_description = ''review'' \<rparr>"

definition exampleThree :: state where
  "exampleThree = loadState 3 (\<lambda>i. None) hiddenRows"

definition exampleHidden :: state where
  "exampleHidden = exec (ChangeWorkspaceCount 2 0 0 None) exampleThree"

section \<open>Properties\<close>

subsection \<open>The calendar\<close>

text \<open>
  Some days of the calendar: the epoch and the day before it, the ends of February in
  2000 and in 2100, the first days of the year 0; and days that \<open>MakeDay\<close> carries
  into the next month or takes from the year before.
\<close>

lemma calendar_examples:
  "civil_from_days 0 = (1970, 1, 1)" "civil_from_days (- 1) = (1969, 12, 31)"
  "civil_from_days 11016 = (2000, 2, 29)" "civil_from_days 11017 = (2000, 3, 1)"
  "civil_from_days 47540 = (2100, 2, 28)" "civil_from_days 47541 = (2100, 3, 1)"
  "civil_from_days (- 719468) = (0, 3, 1)" "civil_from_days (- 719528) = (0, 1, 1)"
  "days_from_civil 1970 1 = 0" "days_from_civil 2000 3 = 11017" "days_from_civil 2100 3 = 47541"
  "MakeDay 2024 2 31 = MakeDay 2024 2 1 + 30" "MakeDay 2024 (- 1) 31 = days_from_civil 2023 12 + 30"
  "MakeDay 2024 1 31 = days_from_civil 2024 3 + 1"
  by (simp_all add: civil_from_days_def civil_of_era_def civil_def yearOfEra_def dayOfYear_def
        monthOfYear_def days_from_civil_def MakeDay_def)

subsection \<open>The records view\<close>

lemma foldl_duration:
  "foldl (\<lambda>sum r. sum + r_duration r) a rs = a + sum_list (map r_duration rs)"
  by (induction rs arbitrary: a) simp_all

text \<open>
  Claim C8. The summary of the records view has the number of the records as its count,
  the sum of their durations as its total, and the total divided by the count as its
  average when there is a record, 0 when there is none.
\<close>

theorem summarize_correct:
  "totalEntries (summarize rs) = length rs \<and>
   totalDuration (summarize rs) = sum_list (map r_duration rs) \<and>
   avgDuration (summarize rs) =
     (if length rs > 0 then of_int (sum_list (map r_duration rs)) / of_nat (length rs) else 0)"
  by (simp add: summarize_def Let_def foldl_duration)

text \<open>The two examples of the specification: no record, and durations of 1000 and 3000.\<close>

theorem summarize_examples:
  "summarize [] = \<lparr> totalEntries = 0, totalDuration = 0, avgDuration = 0 \<rparr> \<and>
   summarize [recordC, recordB] = \<lparr> totalEntries = 2, totalDuration = 4000, avgDuration = 2000 \<rparr>"
  using summarize_correct [of "[]"] summarize_correct [of "[recordC, recordB]"]
  by (simp add: recordC_def recordB_def summarize_def)

lemma filterRecords_day:
  assumes "getFullYear zone now1 = getFullYear zone now2"
    and "getMonth zone now1 = getMonth zone now2"
    and "getDate zone now1 = getDate zone now2"
  shows "filterRecords zone now1 F X = filterRecords zone now2 F X"
  using assms by (simp add: filterRecords_def)

lemma filterRecords_once:
  "filterRecords zone now F (filterRecords zone now F X) = filterRecords zone now F X"
  by (cases "f_workspace F"; cases "f_date F")
     (simp_all add: filterRecords_def Let_def cong: conj_cong)

lemma filterRecords_AllDates:
  "f_date F = AllDates \<Longrightarrow> filterRecords zone now1 F X = filterRecords zone now2 F X"
  by (simp add: filterRecords_def)

text \<open>
  Claim C6 as the specification states it, that applying the filter to its own result
  always returns that result, fails: \<open>filterRecords\<close> reads the clock on every call
  (line 745). With the filter \<open>today\<close>, a call a millisecond before the midnight that
  ends 2024-01-01 keeps a record of that day, and a call on the result at that midnight
  drops it.
\<close>

theorem filterRecords_across_midnight:
  "filterRecords zoneUTC 1704153599999 todayFilter [recordA] = [recordA] \<and>
   filterRecords zoneUTC 1704153600000 todayFilter
     (filterRecords zoneUTC 1704153599999 todayFilter [recordA]) = []"
proof -
  have first: "filterRecords zoneUTC 1704153599999 todayFilter [recordA] = [recordA]"
    by code_simp
  have "filterRecords zoneUTC 1704153600000 todayFilter [recordA] = []"
    by code_simp
  with first show ?thesis by simp
qed

text \<open>
  Claim C6, amended. \<open>filterRecords\<close> works on a copy of the array it is given (line
  736) and so leaves it as it was. Applied to its own result it returns that result
  when the two calls read the clock on the same local calendar day, and whatever the
  clock when the date filter is \<open>all\<close>; what it returns is the records it was given with
  some of them left out, in their order; and with the filter \<open>all\<close>, \<open>all\<close> it returns
  the records it was given.
\<close>

theorem filterRecords_properties:
  "(f_date F = AllDates \<or>
    getFullYear zone now1 = getFullYear zone now2 \<and> getMonth zone now1 = getMonth zone now2 \<and>
    getDate zone now1 = getDate zone now2 \<longrightarrow>
      filterRecords zone now2 F (filterRecords zone now1 F X) = filterRecords zone now1 F X) \<and>
   filterRecords zone now F (filterRecords zone now F X) = filterRecords zone now F X \<and>
   subseq (filterRecords zone now F X) X \<and>
   filterRecords zone now \<lparr> f_workspace = AllWorkspaces, f_date = AllDates \<rparr> X = X"
proof (intro conjI impI)
  assume "f_date F = AllDates \<or>
    getFullYear zone now1 = getFullYear zone now2 \<and> getMonth zone now1 = getMonth zone now2 \<and>
    getDate zone now1 = getDate zone now2"
  then have "filterRecords zone now2 F = filterRecords zone now1 F"
    using filterRecords_AllDates [where F = F and zone = zone and ?now1.0 = now2 and ?now2.0 = now1]
      filterRecords_day [where zone = zone and ?now1.0 = now2 and ?now2.0 = now1 and F = F]
    by (intro ext) auto
  then show "filterRecords zone now2 F (filterRecords zone now1 F X) = filterRecords zone now1 F X"
    by (simp add: filterRecords_once)
next
  show "filterRecords zone now F (filterRecords zone now F X) = filterRecords zone now F X"
    by (rule filterRecords_once)
next
  show "subseq (filterRecords zone now F X) X"
    by (cases "f_workspace F"; cases "f_date F") (simp_all add: filterRecords_def Let_def)
next
  show "filterRecords zone now \<lparr> f_workspace = AllWorkspaces, f_date = AllDates \<rparr> X = X"
    by (simp add: filterRecords_def)
qed

text \<open>
  On 2024-01-01 the filter \<open>today\<close> keeps the first of the two records and not the
  second, at 10:00:00 UTC and again on the result a millisecond before midnight.
\<close>

theorem filterRecords_example:
  "getFullYear zoneUTC 1704103200000 = getFullYear zoneUTC 1704153599999 \<and>
   getMonth zoneUTC 1704103200000 = getMonth zoneUTC 1704153599999 \<and>
   getDate zoneUTC 1704103200000 = getDate zoneUTC 1704153599999 \<and>
   filterRecords zoneUTC 1704103200000 todayFilter [recordA, recordB] = [recordA] \<and>
   filterRecords zoneUTC 1704153599999 todayFilter
     (filterRecords zoneUTC 1704103200000 todayFilter [recordA, recordB]) = [recordA] \<and>
   subseq [recordA] [recordA, recordB]"
proof -
  have y: "getFullYear zoneUTC 1704103200000 = getFullYear zoneUTC 1704153599999" by code_simp
  have m: "getMonth zoneUTC 1704103200000 = getMonth zoneUTC 1704153599999" by code_simp
  have d: "getDate zoneUTC 1704103200000 = getDate zoneUTC 1704153599999" by code_simp
  have first: "filterRecords zoneUTC 1704103200000 todayFilter [recordA, recordB] = [recordA]"
    by code_simp
  note props = filterRecords_properties [of todayFilter zoneUTC 1704103200000 1704153599999
      "[recordA, recordB]" 1704103200000]
  have "filterRecords zoneUTC 1704153599999 todayFilter
     (filterRecords zoneUTC 1704103200000 todayFilter [recordA, recordB]) =
     filterRecords zoneUTC 1704103200000 todayFilter [recordA, recordB]"
    using props [THEN conjunct1] y m d by blast
  moreover have "subseq (filterRecords zoneUTC 1704103200000 todayFilter [recordA, recordB])
      [recordA, recordB]"
    using props [THEN conjunct2, THEN conjunct2, THEN conjunct1] .
  ultimately show ?thesis using y m d first by simp
qed

subsection \<open>Export of no entries\<close>

lemma length_insertWith: "length (insertWith cmp x xs) = Suc (length xs)"
  by (induction xs) simp_all

lemma length_sortWith: "length (sortWith cmp xs) = length xs"
  unfolding sortWith_def by (induction xs) (simp_all add: length_insertWith)

lemma allEntries_fold:
  "fold (\<lambda>i acc. case entries s i of None \<Rightarrow> acc | Some es \<Rightarrow> acc @ map (f i) es) js acc =
   acc @ concat (map (\<lambda>i. map (f i) (entriesOf s i)) js)"
  by (induction js arbitrary: acc) (simp_all add: entriesOf_def split: option.splits)

lemma allEntries_concat:
  "allEntries zone s =
   concat (map (\<lambda>i. map (exportRowOf zone s i) (entriesOf s i)) [1..workspaceCount s])"
  unfolding allEntries_def by (simp add: allEntries_fold)

lemma allEntries_Nil: "(allEntries zone s = []) = noEntries s"
  by (simp add: allEntries_concat noEntries_def list_all_iff)

text \<open>
  Claim C9. When the lists of the workspaces hold no entry, \<open>exportToCSV\<close> ends in the
  alert \<open>No entries to export\<close> and downloads nothing; it downloads a file only when
  there is an entry.
\<close>

theorem exportToCSV_empty:
  "(noEntries s \<longrightarrow> exportToCSV zone now s = Alert ''No entries to export'') \<and>
   (\<not> noEntries s \<longrightarrow> (\<exists>name text. exportToCSV zone now s = Download name text))"
  using allEntries_Nil [of zone s] length_sortWith [of compareRows "allEntries zone s"]
  by (auto simp: exportToCSV_def Let_def)

theorem exportToCSV_empty_witness:
  "noEntries exampleStart \<and> exportToCSV zoneUTC 3000 exampleStart = Alert ''No entries to export'' \<and>
   \<not> noEntries exampleSwitched \<and>
   (\<exists>name text. exportToCSV zoneUTC 3000 exampleSwitched = Download name text)"
proof -
  have "noEntries exampleStart" by code_simp
  moreover have "\<not> noEntries exampleSwitched" by code_simp
  ultimately show ?thesis
    using exportToCSV_empty [of exampleStart zoneUTC 3000]
      exportToCSV_empty [of exampleSwitched zoneUTC 3000]
    by blast
qed

subsection \<open>Time worked today\<close>

lemma addEntriesOfToday_sum:
  "addEntriesOfToday zone today es a =
   a + sum_list (map e_duration
         (filter (\<lambda>e. toDateString zone (e_startTime e) = toDateString zone today) es))"
  unfolding addEntriesOfToday_def by (induction es arbitrary: a) simp_all

lemma addCurrentTimer_sum:
  "addCurrentTimer now s i a =
   a + (if activeWorkspace s = Some i
        then (case timers s i of None \<Rightarrow> 0 | Some ref \<Rightarrow> timerElapsed now (store s ref)) else 0)"
  by (simp add: addCurrentTimer_def timerElapsed_def split: option.splits)

lemma totalTime_fold:
  "fold (\<lambda>i total.
        addCurrentTimer now s i
          (case entries s i of None \<Rightarrow> total | Some es \<Rightarrow> addEntriesOfToday zone today es total)) js a =
   a + sum_list (map e_duration
         (filter (\<lambda>e. toDateString zone (e_startTime e) = toDateString zone today)
            (concat (map (entriesOf s) js))))
     + sum_list (map (\<lambda>i. if activeWorkspace s = Some i
        then (case timers s i of None \<Rightarrow> 0 | Some ref \<Rightarrow> timerElapsed now (store s ref)) else 0) js)"
  by (induction js arbitrary: a)
     (simp_all add: addCurrentTimer_sum addEntriesOfToday_sum entriesOf_def split: option.splits)

lemma sum_list_single:
  "distinct js \<Longrightarrow>
   sum_list (map (\<lambda>i. if a = i then (c::int) else 0) js) = (if a \<in> set js then c else 0)"
  by (induction js) auto

lemma totalTime_sum:
  "totalTime zone today now s =
     sum_list (map e_duration
       (filter (\<lambda>e. toDateString zone (e_startTime e) = toDateString zone today)
          (concat (map (entriesOf s) [1..workspaceCount s]))))
     + (case activeWorkspace s of
          None \<Rightarrow> 0
        | Some a \<Rightarrow>
            if a \<in> set [1..workspaceCount s]
            then (case timers s a of None \<Rightarrow> 0 | Some ref \<Rightarrow> timerElapsed now (store s ref))
            else 0)"
proof (cases "activeWorkspace s")
  case None
  then show ?thesis by (simp add: totalTime_def totalTime_fold)
next
  case (Some a)
  then show ?thesis
    using sum_list_single [of "[1..workspaceCount s]" a
        "case timers s a of None \<Rightarrow> 0 | Some ref \<Rightarrow> timerElapsed now (store s ref)"]
    by (simp add: totalTime_def totalTime_fold cong: if_cong)
qed

lemma noEntries_concat: "noEntries s \<Longrightarrow> concat (map (entriesOf s) [1..workspaceCount s]) = []"
  by (simp add: noEntries_def list_all_iff)

text \<open>
  Claim C7 as the specification states it, that the total covers every entry of every
  workspace, fails: the loop of line 227 runs over the workspaces 1 to
  \<open>workspaceCount\<close>, and a lower count hides a workspace without removing its list.
  In the example the entry of workspace 3 is of the day of the clock and the total is
  its duration; after the count is lowered to 2 the entry is still in its list and the
  total is 0.
\<close>

theorem totalTime_skips_hidden:
  "reachable exampleHidden \<and> workspaceCount exampleHidden = 2 \<and>
   entries exampleHidden 3 = Some [hiddenEntry] \<and>
   toDateString zoneUTC (e_startTime hiddenEntry) = toDateString zoneUTC 1704103200000 \<and>
   totalTime zoneUTC 1704103200000 1704103200000 exampleThree = 3600000 \<and>
   totalTime zoneUTC 1704103200000 1704103200000 exampleHidden = 0"
proof -
  have "reachable exampleHidden"
    unfolding exampleHidden_def exampleThree_def by (intro reachable.intros)
  moreover have "workspaceCount exampleHidden = 2" by code_simp
  moreover have "entries exampleHidden 3 = Some [hiddenEntry]" by code_simp
  moreover have "toDateString zoneUTC (e_startTime hiddenEntry) = toDateString zoneUTC 1704103200000"
    by code_simp
  moreover have "totalTime zoneUTC 1704103200000 1704103200000 exampleThree = 3600000"
    by code_simp
  moreover have "totalTime zoneUTC 1704103200000 1704103200000 exampleHidden = 0"
    by code_simp
  ultimately show ?thesis by simp
qed
text \<open>
  Claim C7, amended. The total of \<open>updateTotalTime\<close> is the sum of the durations of the
  entries of the workspaces 1 to \<open>workspaceCount\<close> (the workspaces on display; the
  entries of a workspace above the count are left out) whose start is on the local
  calendar day of the clock, plus the elapsed time of the timer of the active workspace
  (its banked time and, when it runs, the time since its start, whatever the day of
  that start) when the active workspace is one of these workspaces. Without entries in
  these workspaces and without an active workspace the total is 0.
\<close>

theorem totalTime_correct:
  "totalTime zone today now s =
     sum_list (map e_duration
       (filter (\<lambda>e. toDateString zone (e_startTime e) = toDateString zone today)
          (concat (map (entriesOf s) [1..workspaceCount s]))))
     + (case activeWorkspace s of
          None \<Rightarrow> 0
        | Some a \<Rightarrow>
            if a \<in> set [1..workspaceCount s]
            then (case timers s a of None \<Rightarrow> 0 | Some ref \<Rightarrow> timerElapsed now (store s ref))
            else 0) \<and>
   (noEntries s \<and> activeWorkspace s = None \<longrightarrow> totalTime zone today now s = 0)"
proof (intro conjI impI)
  show "totalTime zone today now s =
     sum_list (map e_duration
       (filter (\<lambda>e. toDateString zone (e_startTime e) = toDateString zone today)
          (concat (map (entriesOf s) [1..workspaceCount s]))))
     + (case activeWorkspace s of
          None \<Rightarrow> 0
        | Some a \<Rightarrow>
            if a \<in> set [1..workspaceCount s]
            then (case timers s a of None \<Rightarrow> 0 | Some ref \<Rightarrow> timerElapsed now (store s ref))
            else 0)"
    by (rule totalTime_sum)
next
  assume "noEntries s \<and> activeWorkspace s = None"
  then have none: "concat (map (entriesOf s) [1..workspaceCount s]) = []"
    and idle: "activeWorkspace s = None"
    by (simp_all add: noEntries_concat)
  show "totalTime zone today now s = 0"
    unfolding totalTime_sum none idle by simp
qed

text \<open>
  After the example run, when the clock reads 3000: the entry of workspace 1 has lasted
  1000, the timer of workspace 2 runs since 2000. Before it, the total is 0. And at
  five in the morning of 2024-01-01, five hours to the west, of the two entries around
  midnight only the one that starts at midnight counts.
\<close>

theorem totalTime_correct_witness:
  "totalTime zoneUTC 3000 3000 exampleSwitched = 1000 + (3000 - 2000) \<and>
   noEntries exampleStart \<and> activeWorkspace exampleStart = None \<and>
   totalTime zoneUTC 3000 3000 exampleStart = 0 \<and>
   totalTime zoneWest 1704103200000 1704103200000 exampleMidnight = 20"
proof -
  have "totalTime zoneUTC 3000 3000 exampleSwitched = 2000" by code_simp
  moreover have "noEntries exampleStart" by code_simp
  moreover have "activeWorkspace exampleStart = None" by code_simp
  moreover have "totalTime zoneWest 1704103200000 1704103200000 exampleMidnight = 20"
    by code_simp
  ultimately show ?thesis
    using totalTime_correct [of zoneUTC 3000 3000 exampleStart] by simp
qed

subsection \<open>The banked time of the timers\<close>

text \<open>
  Every function of the engine writes 0 to the field \<open>elapsed\<close> or leaves it alone, so
  no timer object ever has banked time.
\<close>

lemma banked0_newTimer: "banked0 s \<Longrightarrow> banked0 (newTimer i s)"
  by (simp add: banked0_def newTimer_def)

lemma banked0_initWorkspace: "banked0 s \<Longrightarrow> banked0 (initWorkspace i s)"
  using banked0_newTimer [of s i]
  by (simp add: initWorkspace_def Let_def banked0_def split: option.splits)

lemma banked0_initWorkspaceState: "banked0 s \<Longrightarrow> banked0 (initWorkspaceState count s)"
  unfolding initWorkspaceState_def
  by (rule fold_invariant [where Q = "\<lambda>_. True"]) (simp_all add: banked0_initWorkspace)

lemma banked0_loadState: "banked0 (loadState count names rows)"
  unfolding loadState_def
proof (rule fold_invariant [where Q = "\<lambda>_. True"])
  have "banked0 (initialState\<lparr> workspaceCount := count, workspaceNames := names, db := rows \<rparr>)"
    by (simp add: banked0_def initialState_def)
  then show "banked0 (initWorkspaceState count
      (initialState\<lparr> workspaceCount := count, workspaceNames := names, db := rows \<rparr>))"
    by (rule banked0_initWorkspaceState)
qed (simp_all add: banked0_def)

lemma banked0_stopTimerRest: "banked0 s \<Longrightarrow> banked0 (stopTimerRest workspace timer s)"
  by (simp add: banked0_def stopTimerRest_def Let_def)

lemma banked0_stopTimer:
  "banked0 s \<Longrightarrow> banked0 (snd (stopTimer workspace now1 now2 descInput awaitedBy s))"
  using banked0_stopTimerRest [of s workspace]
  by (auto simp: stopTimer_def Let_def banked0_def split: option.splits)

lemma banked0_startTimer:
  "banked0 s \<Longrightarrow> banked0 (after (startTimer workspace now1 now2 descInput now s))"
  using banked0_stopTimer [of s _ now1 now2 descInput None]
  by (auto simp: startTimer_def after_def Let_def banked0_def split: option.splits)

lemma banked0_clearAll: "banked0 s \<Longrightarrow> banked0 (snd (clearAll s))"
  by (auto simp: clearAll_def Let_def banked0_def split: option.splits)

lemma banked0_clearAllResume: "banked0 s \<Longrightarrow> banked0 (clearAllResume s)"
  unfolding clearAllResume_def
  by (rule fold_invariant [where Q = "\<lambda>_. True"]) (simp_all add: banked0_def newTimer_def)

lemma banked0_changeWorkspaceCountRest:
  "banked0 s \<Longrightarrow> banked0 (changeWorkspaceCountRest newCount s)"
  using banked0_initWorkspaceState [of "s\<lparr> workspaceCount := newCount \<rparr>" newCount]
  by (simp add: changeWorkspaceCountRest_def Let_def banked0_def)

lemma banked0_changeWorkspaceCount:
  "banked0 s \<Longrightarrow> banked0 (changeWorkspaceCount newCount now1 now2 descInput s)"
proof -
  assume b: "banked0 s"
  have stop: "banked0 s1" if "stopTimer a now1 now2 descInput (Some newCount) s = (p, s1)" for a p s1
    using banked0_stopTimer [OF b, of a now1 now2 descInput "Some newCount"] that by simp
  show ?thesis
    using b stop banked0_changeWorkspaceCountRest [of _ newCount]
    by (auto simp: changeWorkspaceCount_def split: option.splits prod.splits promise.splits)
qed

lemma banked0_changeWorkspaceCountLoop:
  "banked0 s \<Longrightarrow> banked0 (changeWorkspaceCountLoop newCount i s)"
  by (simp add: changeWorkspaceCountLoop_def Let_def banked0_def split: option.splits)

lemma banked0_stopTimerResume:
  "banked0 s \<Longrightarrow> banked0 (stopTimerResume workspace timer entry entryId s)"
  using banked0_stopTimerRest [of _ workspace timer]
  by (simp add: stopTimerResume_def Let_def banked0_def)

lemma store_editFirst: "store (editFirst entryId newValue js s) = store s"
  by (induction js) (simp_all split: option.splits)

lemma banked0_updateEntryResume:
  "banked0 s \<Longrightarrow> banked0 (updateEntryResume entryId newValue table s)"
  by (simp add: updateEntryResume_def Let_def banked0_def store_editFirst)

lemma banked0_deleteEntryResume:
  "banked0 s \<Longrightarrow> banked0 (deleteEntryResume workspace entryId s)"
  by (simp add: deleteEntryResume_def banked0_def)

lemma banked0_resume: "banked0 s \<Longrightarrow> banked0 (resume k answer s)"
  using banked0_stopTimerResume banked0_clearAllResume banked0_changeWorkspaceCountLoop
    banked0_changeWorkspaceCountRest banked0_updateEntryResume banked0_deleteEntryResume
  by (auto simp: resume_def Let_def split: task.splits option.splits)

lemma banked0_edits:
  "banked0 s \<Longrightarrow> banked0 (deleteEntry workspace entryId s)"
  "banked0 s \<Longrightarrow> banked0 (editEntry workspace entryId input s)"
  "banked0 s \<Longrightarrow> banked0 (editRecordInTable entryId input s)"
  by (simp_all add: deleteEntry_def editEntry_def editRecordInTable_def Let_def banked0_def
        split: option.splits)

lemma banked0_dequeue: "banked0 s \<Longrightarrow> banked0 (dequeue k s)"
  by (simp add: banked0_def dequeue_def)

lemma banked0_exec: "banked0 s \<Longrightarrow> banked0 (exec ev s)"
  by (cases ev)
     (simp_all add: banked0_startTimer banked0_stopTimer banked0_clearAll
        banked0_changeWorkspaceCount banked0_resume banked0_dequeue banked0_edits)

lemma reachable_banked0: "reachable s \<Longrightarrow> banked0 s"
  by (induction rule: reachable.induct) (simp_all add: banked0_loadState banked0_exec)


text \<open>
  Claim C10. In every state of a run, the timer object of every workspace has 0 in its
  field \<open>elapsed\<close>, so that the elapsed time shown for a running timer is the clock
  minus its start, and is 0 for a timer that does not run.
\<close>

theorem elapsed_always_zero:
  assumes "reachable s" and "timers s i = Some ref"
  shows "elapsed (store s ref) = 0 \<and>
         timerElapsed now (store s ref) =
           (case startTime (store s ref) of
              None \<Rightarrow> 0
            | Some t \<Rightarrow> if t \<noteq> 0 then now - t else 0)"
  using reachable_banked0 [OF assms(1)]
  by (simp add: banked0_def timerElapsed_def split: option.splits)

lemma reachable_examples:
  "reachable exampleStart" "reachable exampleRunning" "reachable exampleSwitching"
  "reachable exampleSwitched"
  unfolding exampleStart_def exampleRunning_def exampleSwitching_def exampleSwitched_def
  by (intro reachable.intros)+

text \<open>In the example run, the timer of workspace 1 when the clock reads 4000.\<close>

theorem elapsed_always_zero_witness:
  "reachable exampleRunning \<and> timers exampleRunning 1 = Some 0 \<and>
   elapsed (store exampleRunning 0) = 0 \<and> timerElapsed 4000 (store exampleRunning 0) = 3000"
proof -
  have t: "timers exampleRunning 1 = Some 0" by code_simp
  have st: "startTime (store exampleRunning 0) = Some 1000" by code_simp
  show ?thesis
    using elapsed_always_zero [OF reachable_examples(2) t, of 4000] t st reachable_examples(2)
    by simp
qed

subsection \<open>One running timer\<close>

text \<open>
  Claim C1, which the program does not keep. \<open>startTimer\<close> calls \<open>stopTimer\<close> for the
  workspace that runs and goes on without waiting for its promise (line 324; line 644
  awaits the same call). \<open>stopTimer\<close> resets the timer only after the database has
  answered, so in the example run, after the start of workspace 2 and before that
  answer, the timers of workspace 1 and of workspace 2 both have a start time.
\<close>

theorem two_timers_running:
  "reachable exampleSwitching \<and> activeWorkspace exampleSwitching = Some 2 \<and>
   timers exampleSwitching 1 = Some 0 \<and> startTime (store exampleSwitching 0) = Some 1000 \<and>
   timers exampleSwitching 2 = Some 1 \<and> startTime (store exampleSwitching 1) = Some 2000"
proof -
  have "activeWorkspace exampleSwitching = Some 2" by code_simp
  moreover have "timers exampleSwitching 1 = Some 0" by code_simp
  moreover have "startTime (store exampleSwitching 0) = Some 1000" by code_simp
  moreover have "timers exampleSwitching 2 = Some 1" by code_simp
  moreover have "startTime (store exampleSwitching 1) = Some 2000" by code_simp
  ultimately show ?thesis using reachable_examples(3) by simp
qed

text \<open>
  When the database then answers, the timer of workspace 1 is reset and its entry is in
  the list: one timer runs again.
\<close>

lemma one_timer_after_answer:
  "activeWorkspace exampleSwitched = Some 2 \<and> startTime (store exampleSwitched 0) = None \<and>
   startTime (store exampleSwitched 1) = Some 2000 \<and> pending exampleSwitched = [] \<and>
   entries exampleSwitched 1 =
     Some [\<lparr> e_id = Some 1, e_startTime = 1000, e_endTime = 2000, e_duration = 1000,
             e_description = ''No description'' \<rparr>]"
proof -
  have "activeWorkspace exampleSwitched = Some 2" by code_simp
  moreover have "startTime (store exampleSwitched 0) = None" by code_simp
  moreover have "startTime (store exampleSwitched 1) = Some 2000" by code_simp
  moreover have "pending exampleSwitched = []" by code_simp
  moreover have "entries exampleSwitched 1 =
     Some [\<lparr> e_id = Some 1, e_startTime = 1000, e_endTime = 2000, e_duration = 1000,
             e_description = ''No description'' \<rparr>]"
    by code_simp
  ultimately show ?thesis by simp
qed

subsection \<open>Starting the active workspace\<close>

text \<open>
  Claim C3 as the specification states it, that starting the workspace that is active
  changes nothing, fails: in the example run workspace 1 is active with the start time
  1000, and starting it again when the clock reads 5000 sets its start time to 5000.
\<close>

theorem startTimer_restarts:
  "activeWorkspace exampleRunning = Some 1 \<and> timers exampleRunning 1 = Some 0 \<and>
   startTime (store exampleRunning 0) = Some 1000 \<and>
   startTime (store (after (startTimer 1 0 0 None 5000 exampleRunning)) 0) = Some 5000"
proof -
  have "activeWorkspace exampleRunning = Some 1" by code_simp
  moreover have "timers exampleRunning 1 = Some 0" by code_simp
  moreover have "startTime (store exampleRunning 0) = Some 1000" by code_simp
  moreover have "startTime (store (after (startTimer 1 0 0 None 5000 exampleRunning)) 0) = Some 5000"
    by code_simp
  ultimately show ?thesis by simp
qed

text \<open>
  Claim C3, amended. \<open>startTimer\<close> for the workspace that is active stops no timer,
  writes no entry and changes nothing in the state but the start time of the timer of
  that workspace, which becomes the reading of the clock: the running clock starts
  again. The state is left as it was exactly when that reading is the start time the
  timer has.
\<close>

theorem startTimer_active:
  assumes "activeWorkspace s = Some w" and "timers s w = Some ref"
  shows "startTimer w now1 now2 descInput now s =
           Normal (s\<lparr> store := (store s)(ref := (store s ref)\<lparr> startTime := Some now \<rparr>) \<rparr>) \<and>
         (after (startTimer w now1 now2 descInput now s) = s) = (startTime (store s ref) = Some now)"
proof -
  have eq: "s\<lparr> activeWorkspace := Some w \<rparr> = s" using assms(1) by simp
  have run: "startTimer w now1 now2 descInput now s =
           Normal (s\<lparr> store := (store s)(ref := (store s ref)\<lparr> startTime := Some now \<rparr>) \<rparr>)"
    using assms by (simp add: startTimer_def Let_def eq)
  have "(s\<lparr> store := (store s)(ref := (store s ref)\<lparr> startTime := Some now \<rparr>) \<rparr> = s) =
        (startTime (store s ref) = Some now)"
  proof
    assume "s\<lparr> store := (store s)(ref := (store s ref)\<lparr> startTime := Some now \<rparr>) \<rparr> = s"
    then have "store (s\<lparr> store := (store s)(ref := (store s ref)\<lparr> startTime := Some now \<rparr>) \<rparr>) ref =
        store s ref"
      by simp
    then have "(store s ref)\<lparr> startTime := Some now \<rparr> = store s ref" by simp
    then have "startTime ((store s ref)\<lparr> startTime := Some now \<rparr>) = startTime (store s ref)"
      by simp
    then show "startTime (store s ref) = Some now" by simp
  next
    assume "startTime (store s ref) = Some now"
    then have "(store s ref)\<lparr> startTime := Some now \<rparr> = store s ref" by simp
    then show "s\<lparr> store := (store s)(ref := (store s ref)\<lparr> startTime := Some now \<rparr>) \<rparr> = s"
      by simp
  qed
  with run show ?thesis by (simp add: after_def)
qed

theorem startTimer_active_witness:
  "activeWorkspace exampleRunning = Some 1 \<and> timers exampleRunning 1 = Some 0 \<and>
   startTimer 1 0 0 None 5000 exampleRunning =
     Normal (exampleRunning\<lparr> store :=
       (store exampleRunning)(0 := (store exampleRunning 0)\<lparr> startTime := Some 5000 \<rparr>) \<rparr>) \<and>
   after (startTimer 1 0 0 None 5000 exampleRunning) \<noteq> exampleRunning \<and>
   after (startTimer 1 0 0 None 1000 exampleRunning) = exampleRunning"
proof -
  have a: "activeWorkspace exampleRunning = Some 1" by code_simp
  have t: "timers exampleRunning 1 = Some 0" by code_simp
  have st: "startTime (store exampleRunning 0) = Some 1000" by code_simp
  note later = startTimer_active [OF a t, of 0 0 None 5000]
  note same = startTimer_active [OF a t, of 0 0 None 1000]
  have "after (startTimer 1 0 0 None 5000 exampleRunning) \<noteq> exampleRunning"
    using later [THEN conjunct2] st by simp
  moreover have "after (startTimer 1 0 0 None 1000 exampleRunning) = exampleRunning"
    using same [THEN conjunct2] st by simp
  ultimately show ?thesis
    using later [THEN conjunct1] a t by blast
qed

subsection \<open>Switching from one workspace to another\<close>

text \<open>
  Claim C2, which the program does not keep. In the example run, when \<open>startTimer\<close> for
  workspace 2 returns, the timer of workspace 2 has its start time, and of the stop of
  workspace 1 only the first part has happened: the entry waits in the suspended call,
  the list of workspace 1 and the table are empty, and the timer of workspace 1 still
  has its start time. When the insert fails the suspended call ends there: no entry is
  ever written for workspace 1, and its timer is never reset.
\<close>

theorem start_before_stop_completes:
  "startTime (store exampleSwitching 1) = Some 2000 \<and>
   entries exampleSwitching 1 = Some [] \<and> db exampleSwitching = [] \<and>
   startTime (store exampleSwitching 0) = Some 1000 \<and>
   pending exampleSwitching =
     [StopTimerK 1 0 \<lparr> e_id = None, e_startTime = 1000, e_endTime = 2000, e_duration = 1000,
        e_description = ''No description'' \<rparr> None] \<and>
   entries exampleFailed 1 = Some [] \<and> db exampleFailed = [] \<and> pending exampleFailed = [] \<and>
   startTime (store exampleFailed 0) = Some 1000 \<and>
   startTime (store exampleFailed 1) = Some 2000"
proof -
  have "startTime (store exampleSwitching 1) = Some 2000" by code_simp
  moreover have "entries exampleSwitching 1 = Some []" by code_simp
  moreover have "db exampleSwitching = []" by code_simp
  moreover have "startTime (store exampleSwitching 0) = Some 1000" by code_simp
  moreover have "pending exampleSwitching =
     [StopTimerK 1 0 \<lparr> e_id = None, e_startTime = 1000, e_endTime = 2000, e_duration = 1000,
        e_description = ''No description'' \<rparr> None]"
    by code_simp
  moreover have "entries exampleFailed 1 = Some []" by code_simp
  moreover have "db exampleFailed = []" by code_simp
  moreover have "pending exampleFailed = []" by code_simp
  moreover have "startTime (store exampleFailed 0) = Some 1000" by code_simp
  moreover have "startTime (store exampleFailed 1) = Some 2000" by code_simp
  ultimately show ?thesis by simp
qed

subsection \<open>The entry of a stop\<close>

lemma stopTimerRest_frame:
  "entries (stopTimerRest w ref s) = entries s" "db (stopTimerRest w ref s) = db s"
  by (simp_all add: stopTimerRest_def Let_def)

lemma stopTimerResume_entries:
  "entries (stopTimerResume w ref entry entryId s) w =
     Some (entry\<lparr> e_id := Some entryId \<rparr> # entriesOf s w)"
  by (simp add: stopTimerResume_def Let_def stopTimerRest_frame entriesOf_def)

lemma stopTimerResume_db:
  "db (stopTimerResume w ref entry entryId s) = addEntry w entry entryId (db s)"
  by (simp add: stopTimerResume_def Let_def stopTimerRest_frame)

lemma set_selectEntries:
  "set (selectEntries rows i) = entryOfRow ` {e \<in> set rows. workspace_id e = i}"
  by (simp add: selectEntries_def)

lemma selectEntries_addEntry:
  assumes "e_description entry \<noteq> []"
  shows "entry\<lparr> e_id := Some entryId \<rparr> \<in> set (selectEntries (addEntry w entry entryId rows) w)"
proof -
  let ?r = "\<lparr> row_id = entryId, workspace_id = w, start_time = e_startTime entry,
              end_time = e_endTime entry, row_duration = e_duration entry,
              row_description = e_description entry \<rparr>"
  have member: "?r \<in> {e \<in> set (addEntry w entry entryId rows). workspace_id e = w}"
    by (simp add: addEntry_def)
  have "entryOfRow ?r = entry\<lparr> e_id := Some entryId \<rparr>"
    using assms by (cases entry) (simp add: entryOfRow_def)
  then have "entry\<lparr> e_id := Some entryId \<rparr> = entryOfRow ?r" by (rule sym)
  then show ?thesis
    unfolding set_selectEntries using member by (rule image_eqI)
qed

text \<open>
  Claim C4 as the specification states it, that the duration of the entry is its end
  minus its start exactly, fails: \<open>stopTimer\<close> reads the clock once for the duration
  (line 353) and once more for the end (line 360). In the example the readings are 2000
  and 2001: the entry, in the list and as read back from the table, starts at 1000, ends
  at 2001 and has the duration 1000.
\<close>

theorem duration_differs:
  "entries exampleStopped 1 =
     Some [\<lparr> e_id = Some 1, e_startTime = 1000, e_endTime = 2001, e_duration = 1000,
             e_description = ''No description'' \<rparr>] \<and>
   selectEntries (db exampleStopped) 1 =
     [\<lparr> e_id = Some 1, e_startTime = 1000, e_endTime = 2001, e_duration = 1000,
        e_description = ''No description'' \<rparr>] \<and>
   (1000 :: int) \<noteq> 2001 - 1000"
proof -
  have "entries exampleStopped 1 =
     Some [\<lparr> e_id = Some 1, e_startTime = 1000, e_endTime = 2001, e_duration = 1000,
             e_description = ''No description'' \<rparr>]"
    by code_simp
  moreover have "selectEntries (db exampleStopped) 1 =
     [\<lparr> e_id = Some 1, e_startTime = 1000, e_endTime = 2001, e_duration = 1000,
        e_description = ''No description'' \<rparr>]"
    by code_simp
  ultimately show ?thesis by simp
qed

text \<open>
  Claim C4, amended. When a running timer is stopped, in any state of a run, the entry
  that is built has the start time of the timer as its start, the second reading of the
  clock as its end, and the first reading minus the start as its duration. The duration
  is the end minus the start exactly when the two readings are the same; when the
  readings are in order (the start, then the first, then the second) the duration is
  not negative and at most the end minus the start, and the start is at most the end.
  In whatever state the database answers, the entry with its id is put first in the
  list of the workspace, and it is among the entries read back from the table.
\<close>

theorem stopTimer_entry:
  assumes "reachable s" and "timers s w = Some ref" and "startTime (store s ref) = Some t"
    and "t \<noteq> 0"
  shows "\<exists>entry.
     stopTimer w now1 now2 descInput awaitedBy s =
       (Pending, s\<lparr> pending := pending s @ [StopTimerK w ref entry awaitedBy] \<rparr>) \<and>
     e_startTime entry = t \<and> e_endTime entry = now2 \<and> e_duration entry = now1 - t \<and>
     (e_duration entry = e_endTime entry - e_startTime entry) = (now1 = now2) \<and>
     (t \<le> now1 \<and> now1 \<le> now2 \<longrightarrow>
        0 \<le> e_duration entry \<and> e_duration entry \<le> e_endTime entry - e_startTime entry \<and>
        e_startTime entry \<le> e_endTime entry) \<and>
     (\<forall>s' entryId.
        entries (stopTimerResume w ref entry entryId s') w =
          Some (entry\<lparr> e_id := Some entryId \<rparr> # entriesOf s' w) \<and>
        entry\<lparr> e_id := Some entryId \<rparr> \<in>
          set (selectEntries (db (stopTimerResume w ref entry entryId s')) w))"
proof -
  define description where "description = (case descInput of None \<Rightarrow> [] | Some v \<Rightarrow> trim v)"
  define entry where "entry =
    \<lparr> e_id = None, e_startTime = t, e_endTime = now2, e_duration = now1 - t,
      e_description = (if description = [] then ''No description'' else description) \<rparr>"
  have zero: "elapsed (store s ref) = 0"
    using reachable_banked0 [OF assms(1)] by (simp add: banked0_def)
  have call: "stopTimer w now1 now2 descInput awaitedBy s =
       (Pending, s\<lparr> pending := pending s @ [StopTimerK w ref entry awaitedBy] \<rparr>)"
    using assms(2-4) zero by (simp add: stopTimer_def Let_def entry_def description_def)
  have named: "e_description entry \<noteq> []"
    by (simp add: entry_def)
  have fields: "e_startTime entry = t" "e_endTime entry = now2" "e_duration entry = now1 - t"
    by (simp_all add: entry_def)
  have exact: "(e_duration entry = e_endTime entry - e_startTime entry) = (now1 = now2)"
    unfolding fields by auto
  have order: "t \<le> now1 \<and> now1 \<le> now2 \<longrightarrow>
        0 \<le> e_duration entry \<and> e_duration entry \<le> e_endTime entry - e_startTime entry \<and>
        e_startTime entry \<le> e_endTime entry"
    unfolding fields by auto
  have stored: "\<forall>s' entryId.
        entries (stopTimerResume w ref entry entryId s') w =
          Some (entry\<lparr> e_id := Some entryId \<rparr> # entriesOf s' w) \<and>
        entry\<lparr> e_id := Some entryId \<rparr> \<in>
          set (selectEntries (db (stopTimerResume w ref entry entryId s')) w)"
    using selectEntries_addEntry [OF named]
    by (simp add: stopTimerResume_entries stopTimerResume_db)
  from call fields exact order stored show ?thesis by blast
qed

theorem stopTimer_entry_witness:
  "reachable exampleRunning \<and> timers exampleRunning 1 = Some 0 \<and>
   startTime (store exampleRunning 0) = Some 1000 \<and>
   (\<exists>entry.
      stopTimer 1 2000 2001 None None exampleRunning =
        (Pending, exampleRunning\<lparr> pending := pending exampleRunning @ [StopTimerK 1 0 entry None] \<rparr>) \<and>
      e_startTime entry = 1000 \<and> e_endTime entry = 2001 \<and> e_duration entry = 1000 \<and>
      e_duration entry \<le> e_endTime entry - e_startTime entry \<and>
      e_duration entry \<noteq> e_endTime entry - e_startTime entry \<and>
      entry\<lparr> e_id := Some 7 \<rparr> \<in>
        set (selectEntries (db (stopTimerResume 1 0 entry 7 exampleRunning)) 1))"
proof -
  have t: "timers exampleRunning 1 = Some 0" by code_simp
  have st: "startTime (store exampleRunning 0) = Some 1000" by code_simp
  have nz: "(1000::int) \<noteq> 0" by simp
  from stopTimer_entry [OF reachable_examples(2) t st nz, of 2000 2001 None None]
  obtain entry where call:
    "stopTimer 1 2000 2001 None None exampleRunning =
        (Pending, exampleRunning\<lparr> pending := pending exampleRunning @ [StopTimerK 1 0 entry None] \<rparr>)"
    and fields: "e_startTime entry = 1000" "e_endTime entry = 2001" "e_duration entry = 2000 - 1000"
    and stored: "\<forall>s' entryId.
        entries (stopTimerResume 1 0 entry entryId s') 1 =
          Some (entry\<lparr> e_id := Some entryId \<rparr> # entriesOf s' 1) \<and>
        entry\<lparr> e_id := Some entryId \<rparr> \<in>
          set (selectEntries (db (stopTimerResume 1 0 entry entryId s')) 1)"
    by blast
  from stored have "entry\<lparr> e_id := Some 7 \<rparr> \<in>
        set (selectEntries (db (stopTimerResume 1 0 entry 7 exampleRunning)) 1)"
    by blast
  with call fields show ?thesis using reachable_examples(2) t st by auto
qed

subsection \<open>A row of the export\<close>

text \<open>The example database, exported five hours west of UTC, step by step.\<close>

lemmas calendar_defs = Day_def msPerDay_def civil_from_days_def civil_of_era_def civil_def
  yearOfEra_def dayOfYear_def monthOfYear_def YearFromTime_def MonthFromTime_def DateFromTime_def

lemmas clock_defs = LocalTime_def HourFromTime_def MinFromTime_def SecFromTime_def

lemmas string_defs = padStart_def toString_def nat_toString.simps digit_char_def

lemma exampleQuoted_fields:
  "workspaceCount exampleQuoted = 1" "entries exampleQuoted 1 = Some [exampleEntry]"
  "nameOr exampleQuoted 1 = [CHR ''W'', dquote, CHR ''1'']"
  by code_simp+

lemma exampleQuoted_allEntries:
  "allEntries zoneWest exampleQuoted = [exportRowOf zoneWest exampleQuoted 1 exampleEntry]"
  by (simp add: allEntries_def exampleQuoted_fields)

lemma example_dates:
  "formatDateCSV 1704074400000 = ''2024-01-01''" "formatDateCSV 1704103200000 = ''2024-01-01''"
  by (simp_all add: formatDateCSV_def isoDate_def isoYear_def calendar_defs string_defs)

lemma example_times:
  "formatTimeCSV zoneWest 1704074400000 = ''21:00:00''"
  "formatTimeCSV zoneWest 1704079800000 = ''22:30:00''"
  unfolding formatTimeCSV_def timeOfDay_def Let_def
  by (simp_all add: clock_defs zoneWest_def string_defs)

lemma example_duration: "formatTime 5400000 = ''01:30:00''"
  unfolding formatTime_def Let_def by (simp add: js_rem_def string_defs)

lemma example_line:
  "csvLine (exportRowOf zoneWest exampleQuoted 1 exampleEntry) =
     [dquote, CHR ''W'', dquote, CHR ''1'', dquote] @
     '',2024-01-01,21:00:00,22:30:00,01:30:00,5400,'' @
     [dquote, CHR ''a'', dquote, dquote, CHR ''b'', dquote]"
  by (simp add: csvLine_def exportRowOf_def exampleEntry_def exampleQuoted_fields example_dates
        example_times example_duration doubleQuotes_def string_defs dquote_def)

lemma example_local_day: "toDateString zoneWest 1704074400000 = (0, 11, 31, 2023)"
  unfolding toDateString_def Let_def
  by (simp add: LocalTime_def zoneWest_def WeekDay_def calendar_defs)

text \<open>
  Claim C5, which the program does not keep, in two places. The name of the workspace
  is put between double quotes as it is (line 578), while in the description every
  double quote is doubled (line 584): the name \<open>W"1\<close> is written \<open>"W"1"\<close>. And the
  date of a row is the date part of \<open>toISOString\<close> (line 198), which is in UTC, while
  its times of day are local (line 204): the row of the example has the date
  2024-01-01 and the start 21:00:00, and the local day of that start is Sunday
  2023-12-31.
\<close>

theorem exportToCSV_name_and_date:
  "exportToCSV zoneWest 1704103200000 exampleQuoted =
     Download ''clockr-export-2024-01-01.csv''
       (''Workspace,Date,Start Time,End Time,Duration,Duration (seconds),Description'' @
        [CHR 0x0A] @
        [dquote, CHR ''W'', dquote, CHR ''1'', dquote] @
        '',2024-01-01,21:00:00,22:30:00,01:30:00,5400,'' @
        [dquote, CHR ''a'', dquote, dquote, CHR ''b'', dquote]) \<and>
   toDateString zoneWest (e_startTime exampleEntry) = (0, 11, 31, 2023)"
proof
  show "exportToCSV zoneWest 1704103200000 exampleQuoted =
     Download ''clockr-export-2024-01-01.csv''
       (''Workspace,Date,Start Time,End Time,Duration,Duration (seconds),Description'' @
        [CHR 0x0A] @
        [dquote, CHR ''W'', dquote, CHR ''1'', dquote] @
        '',2024-01-01,21:00:00,22:30:00,01:30:00,5400,'' @
        [dquote, CHR ''a'', dquote, dquote, CHR ''b'', dquote])"
    unfolding exportToCSV_def Let_def
    by (simp add: exampleQuoted_allEntries sortWith_def example_line example_dates headers_def)
  show "toDateString zoneWest (e_startTime exampleEntry) = (0, 11, 31, 2023)"
    by (simp add: exampleEntry_def example_local_day)
qed


end
